theory Spec2Isabelle
  imports Complex_Main
begin

section \<open>Python values shared by the embedded functions\<close>

text \<open>
  Python's unbounded integers are \<^typ>\<open>int\<close>.  Python floats are embedded as
  \<^typ>\<open>real\<close>: a float product or quotient is the exact real product or quotient
  (no binary rounding error, no overflow to infinity).  Every concrete input evaluated
  below uses values that binary64 represents exactly (integers and dyadic fractions),
  so the embedding and the interpreter agree there.
\<close>

datatype py_error =
    KeyError | IndexError | ZeroDivisionError | TypeError | AttributeError
  | ValidationError | RenderError

text \<open>\<^verbatim>\<open>int(x)\<close> on a float truncates toward zero.\<close>

definition py_int :: "real \<Rightarrow> int" where
  "py_int x = (if 0 \<le> x then \<lfloor>x\<rfloor> else \<lceil>x\<rceil>)"

text \<open>\<^verbatim>\<open>round(x)\<close> on a float rounds to the nearest integer, ties to the even one.\<close>

definition py_round :: "real \<Rightarrow> int" where
  "py_round x =
     (let f = \<lfloor>x\<rfloor>; d = x - of_int f
      in if d < 1 / 2 then f
         else if 1 / 2 < d then f + 1
         else if even f then f else f + 1)"

section \<open>tools/utils.py: percent to EMU\<close>



record geom =
  left :: int
  top :: int
  width :: int
  height :: int



section \<open>tools/renderers/decompose_boxes.py: recursive box layout\<close>

text \<open>
  A node is a dict with \<open>name\<close>, an optional \<open>weight\<close> (\<^verbatim>\<open>ch.get("weight", 1.0)\<close>) and
  \<open>children\<close> (\<^verbatim>\<open>node.get("children") or []\<close>: a missing, null or empty list is the
  empty list).  The root is one node or a list of nodes.
\<close>

datatype node = Node (name: string) (weight: "real option") (children: "node list")

datatype root_data = Single node | Roots "node list"

text \<open>
  \<^verbatim>\<open>depth(node)\<close>: 0 for a node without children, else one more than the deepest child;
  for a root list the maximum over the roots (0 for the empty list).
\<close>

fun depth :: "node \<Rightarrow> nat" where
  "depth (Node nm wt chs) = (if chs = [] then 0 else 1 + foldr max (map depth chs) 0)"

definition depth_root :: "root_data \<Rightarrow> nat" where
  "depth_root r = (case r of Single n \<Rightarrow> depth n
                   | Roots ns \<Rightarrow> (if ns = [] then 0 else foldr max (map depth ns) 0))"

text \<open>
  The values that \<^verbatim>\<open>render\<close> computes once and that the nested functions
  \<^verbatim>\<open>col_x\<close>, \<^verbatim>\<open>col_width\<close> and \<^verbatim>\<open>layout\<close> read: \<^verbatim>\<open>geom["left"]\<close>,
  the depth \<open>D\<close> (with \<open>cols = D + 1\<close>), \<^verbatim>\<open>col_gap\<close>, \<^verbatim>\<open>col_widths\<close>,
  \<^verbatim>\<open>content_top\<close>, \<^verbatim>\<open>content_h\<close> and \<^verbatim>\<open>gap_y\<close>.  The constants 0.03, 0.2, 0.08
  and 0.01 are the column-gap, first-column, header-band and row-gap ratios.  The header
  text boxes that \<^verbatim>\<open>render\<close> draws are shapes, not entries of \<^verbatim>\<open>boxes\<close>, and are
  left out.
\<close>

record layout_env =
  geom_left :: int
  max_depth :: nat
  col_gap :: int
  col_widths :: "int list"
  content_top :: int
  content_h :: int
  gap_y :: int

definition cols :: "layout_env \<Rightarrow> nat" where
  "cols E = max_depth E + 1"

definition mk_env :: "geom \<Rightarrow> string list option \<Rightarrow> root_data \<Rightarrow> layout_env" where
  "mk_env g headers root_data =
     (let D = depth_root root_data;
          cols = D + 1;
          col_gap = (if cols > 1 then py_int (of_int (width g) * (3 / 100)) else 0);
          total_col_gaps = col_gap * (int cols - 1);
          col_widths =
            (if cols > 1
             then (let remaining_width = width g - total_col_gaps;
                       first_col_w = py_int (of_int remaining_width * (2 / 10));
                       other_col_w = (remaining_width - first_col_w) div (int cols - 1)
                   in [first_col_w] @ replicate (cols - 1) other_col_w)
             else [width g]);
          has_headers = (case headers of None \<Rightarrow> False | Some hs \<Rightarrow> hs \<noteq> []);
          header_h = (if has_headers then py_int (of_int (height g) * (8 / 100)) else 0)
      in \<lparr> geom_left = left g, max_depth = D, col_gap = col_gap, col_widths = col_widths,
           content_top = top g + header_h, content_h = height g - header_h,
           gap_y = py_int (of_int (height g) * (1 / 100)) \<rparr>)"

text \<open>
  List indexing raises IndexError out of range; \<^verbatim>\<open>col_widths[-1]\<close> raises it on the
  empty list.
\<close>

definition py_index :: "'a list \<Rightarrow> nat \<Rightarrow> py_error + 'a" where
  "py_index xs i = (if i < length xs then Inr (xs ! i) else Inl IndexError)"

definition py_last :: "'a list \<Rightarrow> py_error + 'a" where
  "py_last xs = (if xs = [] then Inl IndexError else Inr (last xs))"

text \<open>
  \<^verbatim>\<open>col_x(c)\<close> is \<^verbatim>\<open>geom["left"]\<close> for column 0, else the left edge plus the first
  column and gap plus, \<^verbatim>\<open>for i in range(1, c)\<close>, every further column and gap.
  \<^verbatim>\<open>col_width(c)\<close> is \<^verbatim>\<open>col_widths[c] if c < len(col_widths) else col_widths[-1]\<close>.
\<close>

fun col_x_loop :: "layout_env \<Rightarrow> nat list \<Rightarrow> int \<Rightarrow> py_error + int" where
  "col_x_loop E [] x = Inr x"
| "col_x_loop E (i # is) x =
     (case py_index (col_widths E) i of Inl e \<Rightarrow> Inl e
      | Inr wi \<Rightarrow> col_x_loop E is (x + wi + col_gap E))"

definition col_x :: "layout_env \<Rightarrow> nat \<Rightarrow> py_error + int" where
  "col_x E c =
     (if c = 0 then Inr (geom_left E)
      else case py_index (col_widths E) 0 of Inl e \<Rightarrow> Inl e
           | Inr w0 \<Rightarrow> col_x_loop E [1..<c] (geom_left E + w0 + col_gap E))"

definition col_width :: "layout_env \<Rightarrow> nat \<Rightarrow> py_error + int" where
  "col_width E c = (if c < length (col_widths E) then py_index (col_widths E) c
                    else py_last (col_widths E))"

text \<open>An entry \<^verbatim>\<open>(node, col, x, y, w, h)\<close> of the list \<^verbatim>\<open>boxes\<close>.\<close>

record box =
  b_node :: node
  b_col :: nat
  b_x :: int
  b_y :: int
  b_w :: int
  b_h :: int

text \<open>
  The arithmetic of one sibling level, written twice in the source (lines 144-165 for the
  children of a node, lines 175-197 for a root list):
  \<^verbatim>\<open>weights = [float(ch.get("weight", 1.0)) for ch in children]\<close>,
  \<^verbatim>\<open>total_w = sum(wi for wi in weights if wi > 0) or float(n)\<close>,
  \<^verbatim>\<open>usable = h - gap_y * (n - 1)\<close>, replaced by \<open>h\<close> with \<^verbatim>\<open>local_gap = 0\<close> when
  negative, and per child \<^verbatim>\<open>wi = max(weights[i], 0.0)\<close>,
  \<^verbatim>\<open>frac = (wi / total_w) if total_w > 0 else (1.0 / n)\<close>,
  \<^verbatim>\<open>ch_h = int(round(usable * frac))\<close> for \<open>i < n - 1\<close> and \<^verbatim>\<open>y + h - cursor_y\<close> for the
  last child.  Float division by zero raises ZeroDivisionError.
\<close>

definition py_truediv :: "real \<Rightarrow> real \<Rightarrow> py_error + real" where
  "py_truediv a b = (if b = 0 then Inl ZeroDivisionError else Inr (a / b))"

definition node_weight :: "node \<Rightarrow> real" where
  "node_weight ch = (case weight ch of None \<Rightarrow> 1 | Some v \<Rightarrow> v)"

definition total_weight :: "real list \<Rightarrow> real" where
  "total_weight weights =
     (let s = sum_list (filter (\<lambda>wi. wi > 0) weights)
      in if s \<noteq> 0 then s else real (length weights))"

definition level_usable :: "int \<Rightarrow> int \<Rightarrow> nat \<Rightarrow> int" where
  "level_usable gap h n = (let usable = h - gap * (int n - 1) in if usable < 0 then h else usable)"

definition level_gap :: "int \<Rightarrow> int \<Rightarrow> nat \<Rightarrow> int" where
  "level_gap gap h n = (let usable = h - gap * (int n - 1) in if usable < 0 then 0 else gap)"

definition child_frac :: "real \<Rightarrow> real \<Rightarrow> nat \<Rightarrow> py_error + real" where
  "child_frac wi total_w n =
     (if total_w > 0 then py_truediv wi total_w else py_truediv 1 (real n))"

text \<open>The loop-invariant values of one sibling level, and the extent of child \<open>i\<close>.\<close>

record level =
  lv_weights :: "real list"
  lv_total_w :: real
  lv_usable :: int
  lv_local_gap :: int
  lv_n :: nat
  lv_y :: int
  lv_h :: int

definition mk_level :: "int \<Rightarrow> node list \<Rightarrow> int \<Rightarrow> int \<Rightarrow> level" where
  "mk_level gap nodes y h =
     (let n = length nodes;
          weights = map node_weight nodes
      in \<lparr> lv_weights = weights, lv_total_w = total_weight weights,
           lv_usable = level_usable gap h n, lv_local_gap = level_gap gap h n,
           lv_n = n, lv_y = y, lv_h = h \<rparr>)"

definition child_height :: "level \<Rightarrow> nat \<Rightarrow> int \<Rightarrow> py_error + int" where
  "child_height L i cursor_y =
     (let wi = max (lv_weights L ! i) 0
      in case child_frac wi (lv_total_w L) (lv_n L) of Inl e \<Rightarrow> Inl e
         | Inr fr \<Rightarrow>
             Inr (if i < lv_n L - 1 then py_round (of_int (lv_usable L) * fr)
                  else lv_y L + lv_h L - cursor_y))"

text \<open>
  \<^verbatim>\<open>layout(node, col, x, y, w, h)\<close> clamps the box into the content band, records it,
  and runs the loop over the children, which calls \<^verbatim>\<open>layout\<close> for each child in column
  \<^verbatim>\<open>min(col + 1, cols - 1)\<close> and advances \<^verbatim>\<open>cursor_y\<close> by the child's extent and, except
  after the last child, the local gap.  The result is the list of boxes appended, or the
  exception raised.
\<close>

function (sequential) layout :: "layout_env \<Rightarrow> node \<Rightarrow> nat \<Rightarrow> int \<Rightarrow> int \<Rightarrow> int \<Rightarrow> int \<Rightarrow> py_error + box list"
and layout_children ::
  "layout_env \<Rightarrow> nat \<Rightarrow> level \<Rightarrow> nat \<Rightarrow> int \<Rightarrow> node list \<Rightarrow> py_error + box list"
where
  "layout E (Node nm wt chs) col x y0 w h0 =
     (let y = max y0 (content_top E);
          bottom = content_top E + content_h E;
          h = min h0 (bottom - y);
          bx = \<lparr> b_node = Node nm wt chs, b_col = col, b_x = x, b_y = y, b_w = w, b_h = h \<rparr>
      in if chs = [] then Inr [bx]
         else (case layout_children E col (mk_level (gap_y E) chs y h) 0 y chs of
                    Inl e \<Rightarrow> Inl e
                  | Inr bs \<Rightarrow> Inr (bx # bs)))"
| "layout_children E col L i cursor_y [] = Inr []"
| "layout_children E col L i cursor_y (ch # rest) =
     (case child_height L i cursor_y of Inl e \<Rightarrow> Inl e
      | Inr ch_h \<Rightarrow>
        (case col_x E (min (col + 1) (cols E - 1)) of Inl e \<Rightarrow> Inl e
         | Inr child_x \<Rightarrow>
           (case col_width E (min (col + 1) (cols E - 1)) of Inl e \<Rightarrow> Inl e
            | Inr cw \<Rightarrow>
              (case layout E ch (min (col + 1) (cols E - 1)) child_x cursor_y cw ch_h of
                 Inl e \<Rightarrow> Inl e
               | Inr bs \<Rightarrow>
                 (case layout_children E col L (i + 1)
                         (cursor_y + ch_h + (if i < lv_n L - 1 then lv_local_gap L else 0)) rest
                  of Inl e \<Rightarrow> Inl e
                   | Inr bs' \<Rightarrow> Inr (bs @ bs'))))))"
  by pat_completeness auto

termination
  by (relation "measure (\<lambda>a. case a of Inl (E, nd, r) \<Rightarrow> size nd
                                   | Inr (E, col, L, i, cy, chs) \<Rightarrow> size_list size chs)")
     auto

text \<open>
  The top level of \<^verbatim>\<open>render\<close>: a root list is laid out in column 0 by the same loop
  over the full content band (nothing is laid out for an empty list); a single root gets
  the whole band.
\<close>

fun layout_roots :: "layout_env \<Rightarrow> level \<Rightarrow> nat \<Rightarrow> int \<Rightarrow> node list \<Rightarrow> py_error + box list" where
  "layout_roots E L i cursor_y [] = Inr []"
| "layout_roots E L i cursor_y (item # rest) =
     (case child_height L i cursor_y of Inl e \<Rightarrow> Inl e
      | Inr h_i \<Rightarrow>
        (case col_x E 0 of Inl e \<Rightarrow> Inl e
         | Inr x0 \<Rightarrow>
           (case col_width E 0 of Inl e \<Rightarrow> Inl e
            | Inr w0 \<Rightarrow>
              (case layout E item 0 x0 cursor_y w0 h_i of Inl e \<Rightarrow> Inl e
               | Inr bs \<Rightarrow>
                 (case layout_roots E L (i + 1)
                         (cursor_y + h_i + (if i < lv_n L - 1 then lv_local_gap L else 0)) rest
                  of Inl e \<Rightarrow> Inl e
                   | Inr bs' \<Rightarrow> Inr (bs @ bs'))))))"

definition render_boxes :: "geom \<Rightarrow> string list option \<Rightarrow> root_data \<Rightarrow> py_error + box list" where
  "render_boxes g headers root_data =
     (let E = mk_env g headers root_data
      in case root_data of
           Roots items \<Rightarrow>
             (if items = [] then Inr []
              else layout_roots E (mk_level (gap_y E) items (content_top E) (content_h E))
                     0 (content_top E) items)
         | Single nd \<Rightarrow>
             (case col_x E 0 of Inl e \<Rightarrow> Inl e
              | Inr x0 \<Rightarrow>
                (case col_width E 0 of Inl e \<Rightarrow> Inl e
                 | Inr w0 \<Rightarrow> layout E nd 0 x0 (content_top E) w0 (content_h E))))"

text \<open>
  Notions used to state the properties: a box inside the content band; the extents the
  loop hands to the siblings, read off \<^const>\<open>child_height\<close> along the cursor; the
  cursors; and the sequence of \<^const>\<open>layout\<close> calls of one level.
\<close>

definition in_band :: "layout_env \<Rightarrow> box \<Rightarrow> bool" where
  "in_band E b \<longleftrightarrow> content_top E \<le> b_y b \<and> b_y b + b_h b \<le> content_top E + content_h E"







text \<open>Example inputs.\<close>

definition env0 :: layout_env where
  "env0 = \<lparr> geom_left = 0, max_depth = 1, col_gap = 30, col_widths = [194, 776],
            content_top = 0, content_h = 100, gap_y = 60 \<rparr>"

definition leaf :: "string \<Rightarrow> real option \<Rightarrow> node" where
  "leaf nm wt = Node nm wt []"




section \<open>tools/renderers/component_diagram.py: connector routing\<close>

text \<open>
  \<^verbatim>\<open>_rel_to_abs\<close> turns a percent position into the absolute box
  \<^verbatim>\<open>{"x", "y", "w", "h"}\<close>; \<^verbatim>\<open>_calc_conn_points_and_sites(from_g, to_g, margin)\<close>
  returns \<^verbatim>\<open>((start, end), (begin_site, end_site), connector_type)\<close> with the sites
  0 = top, 1 = left, 2 = bottom, 3 = right.  The centers \<^verbatim>\<open>fx + fw / 2\<close> are floats; halves
  and quarters of integers are exact in binary64 below \<open>2^51\<close>, and are exact reals here.
\<close>

record position =
  pos_x :: real
  pos_y :: real
  pos_w :: real
  pos_h :: real

record gbox =
  gx :: int
  gy :: int
  gw :: int
  gh :: int

definition rel_to_abs :: "geom \<Rightarrow> position \<Rightarrow> gbox" where
  "rel_to_abs g rel =
     \<lparr> gx = left g + py_int (of_int (width g) * (pos_x rel / 100)),
       gy = top g + py_int (of_int (height g) * (pos_y rel / 100)),
       gw = py_int (of_int (width g) * (pos_w rel / 100)),
       gh = py_int (of_int (height g) * (pos_h rel / 100)) \<rparr>"

definition g1000 :: geom where
  "g1000 = \<lparr> left = 0, top = 0, width = 1000, height = 1000 \<rparr>"

datatype connector_type = STRAIGHT | ELBOW

type_synonym point = "real \<times> real"

definition calc_conn_points_and_sites ::
  "gbox \<Rightarrow> gbox \<Rightarrow> int \<Rightarrow> (point \<times> point) \<times> (nat \<times> nat) \<times> connector_type" where
  "calc_conn_points_and_sites from_g to_g margin =
     (let fx = gx from_g; fy = gy from_g; fw = gw from_g; fh = gh from_g;
          tx = gx to_g; ty = gy to_g; tw = gw to_g; th = gh to_g;
          f_left = fx; f_right = fx + fw;
          f_top = fy; f_bottom = fy + fh;
          t_left = tx; t_right = tx + tw;
          t_top = ty; t_bottom = ty + th;
          fc_x = of_int fx + of_int fw / 2; fc_y = of_int fy + of_int fh / 2;
          tc_x = of_int tx + of_int tw / 2; tc_y = of_int ty + of_int th / 2;
          dx = \<bar>tc_x - fc_x\<bar>;
          dy = \<bar>tc_y - fc_y\<bar>;
          is_horizontal_aligned = (dy < of_int (fh + th) / 4);
          is_vertical_aligned = (dx < of_int (fw + tw) / 4)
      in if is_horizontal_aligned \<and> (f_right \<le> t_left \<or> t_right \<le> f_left) then
           (if f_right \<le> t_left
            then (((of_int (f_right + margin), fc_y), (of_int (t_left - margin), tc_y)),
                  (3, 1), STRAIGHT)
            else (((of_int (f_left - margin), fc_y), (of_int (t_right + margin), tc_y)),
                  (1, 3), STRAIGHT))
         else if is_vertical_aligned \<and> (f_bottom \<le> t_top \<or> t_bottom \<le> f_top) then
           (if f_bottom \<le> t_top
            then (((fc_x, of_int (f_bottom + margin)), (tc_x, of_int (t_top - margin))),
                  (2, 0), STRAIGHT)
            else (((fc_x, of_int (f_top - margin)), (tc_x, of_int (t_bottom + margin))),
                  (0, 2), STRAIGHT))
         else if dx \<ge> dy then
           (if tc_x > fc_x
            then (((fc_x, fc_y), (tc_x, tc_y)), (3, 1), ELBOW)
            else (((fc_x, fc_y), (tc_x, tc_y)), (1, 3), ELBOW))
         else
           (if tc_y > fc_y
            then (((fc_x, fc_y), (tc_x, tc_y)), (2, 0), ELBOW)
            else (((fc_x, fc_y), (tc_x, tc_y)), (0, 2), ELBOW)))"

text \<open>
  The center of a box, the three components of a routing result, and the two alignment
  tests \<^verbatim>\<open>dy < (fh + th) / 4\<close> and \<^verbatim>\<open>dx < (fw + tw) / 4\<close> as predicates of the two boxes.
\<close>

definition center :: "gbox \<Rightarrow> point" where
  "center b = (of_int (gx b) + of_int (gw b) / 2, of_int (gy b) + of_int (gh b) / 2)"

definition conn_points :: "(point \<times> point) \<times> (nat \<times> nat) \<times> connector_type \<Rightarrow> point \<times> point" where
  "conn_points r = fst r"

definition conn_sites :: "(point \<times> point) \<times> (nat \<times> nat) \<times> connector_type \<Rightarrow> nat \<times> nat" where
  "conn_sites r = fst (snd r)"

definition conn_type :: "(point \<times> point) \<times> (nat \<times> nat) \<times> connector_type \<Rightarrow> connector_type" where
  "conn_type r = snd (snd r)"

definition h_aligned :: "gbox \<Rightarrow> gbox \<Rightarrow> bool" where
  "h_aligned a b \<longleftrightarrow> \<bar>snd (center b) - snd (center a)\<bar> < of_int (gh a + gh b) / 4"

definition v_aligned :: "gbox \<Rightarrow> gbox \<Rightarrow> bool" where
  "v_aligned a b \<longleftrightarrow> \<bar>fst (center b) - fst (center a)\<bar> < of_int (gw a + gw b) / 4"

section \<open>render.py: IR normalizer\<close>

text \<open>
  The values a parsed IR file consists of.  A dict is an association list in insertion
  order, read with \<^const>\<open>map_of\<close>; its keys are strings, the only keys the code looks
  up.  \<^verbatim>\<open>d.setdefault(k, v)\<close> and \<^verbatim>\<open>d[k] = v\<close> for an absent key append the entry.
\<close>

datatype yaml =
    YNone
  | YBool bool
  | YInt int
  | YFloat real
  | YStr string
  | YList "yaml list"
  | YDict "(string \<times> yaml) list"

definition is_list :: "yaml \<Rightarrow> bool" where
  "is_list v = (case v of YList xs \<Rightarrow> True | _ \<Rightarrow> False)"

definition is_dict :: "yaml \<Rightarrow> bool" where
  "is_dict v = (case v of YDict d \<Rightarrow> True | _ \<Rightarrow> False)"

definition dict_keys :: "(string \<times> yaml) list \<Rightarrow> string set" where
  "dict_keys d = fst ` set d"

definition dict_in :: "string \<Rightarrow> (string \<times> yaml) list \<Rightarrow> bool" where
  "dict_in k d = (map_of d k \<noteq> None)"

definition dict_get :: "(string \<times> yaml) list \<Rightarrow> string \<Rightarrow> yaml \<Rightarrow> yaml" where
  "dict_get d k dflt = (case map_of d k of None \<Rightarrow> dflt | Some v \<Rightarrow> v)"

definition setdefault :: "string \<Rightarrow> yaml \<Rightarrow> (string \<times> yaml) list \<Rightarrow> (string \<times> yaml) list" where
  "setdefault k v d = (if dict_in k d then d else d @ [(k, v)])"

definition key_in :: "string \<Rightarrow> yaml \<Rightarrow> bool" where
  "key_in k v = (case v of YDict d \<Rightarrow> dict_in k d | _ \<Rightarrow> False)"

text \<open>
  \<^verbatim>\<open>_normalize_ir(ir)\<close>: a list root is wrapped by \<^verbatim>\<open>_mk_min\<close>, as the slide list
  itself when its first element has \<open>components\<close> and no \<open>tool\<close>, as the components of one
  slide \<open>auto_1\<close> otherwise; a dict root gets the defaults of \<open>version\<close>, \<open>meta\<close>,
  \<open>theme\<close> and, when absent, \<open>slides\<close> (one slide around \<open>components\<close> if that key is
  present, else none); any other root raises TypeError.
\<close>

definition mk_min :: "yaml \<Rightarrow> yaml" where
  "mk_min slides =
     YDict [(''version'', YInt 1), (''meta'', YDict []), (''theme'', YDict []), (''slides'', slides)]"

definition wrap_components :: "yaml \<Rightarrow> yaml" where
  "wrap_components comps =
     YList [YDict [(''id'', YStr ''auto_1''), (''background'', YStr ''#FFFFFF''),
                   (''components'', comps)]]"

definition normalize_ir :: "yaml \<Rightarrow> py_error + yaml" where
  "normalize_ir ir =
     (case ir of
        YList xs \<Rightarrow>
          (if xs \<noteq> [] \<and> list_all is_dict xs
                \<and> (key_in ''tool'' (hd xs) \<or> key_in ''components'' (hd xs))
           then (if key_in ''tool'' (hd xs) then Inr (mk_min (wrap_components ir))
                 else Inr (mk_min ir))
           else Inr (mk_min (wrap_components ir)))
      | YDict d \<Rightarrow>
          (let d1 = setdefault ''version'' (YInt 1) d;
               d2 = setdefault ''meta'' (YDict []) d1;
               d3 = setdefault ''theme'' (YDict []) d2
           in if \<not> dict_in ''slides'' d3
              then (if dict_in ''components'' d3
                    then Inr (YDict (d3 @ [(''slides'',
                           YList [YDict [(''id'', dict_get d3 ''id'' (YStr ''auto_1'')),
                                         (''background'', dict_get d3 ''background'' (YStr ''#FFFFFF'')),
                                         (''layout'', dict_get d3 ''layout'' YNone),
                                         (''components'', dict_get d3 ''components'' YNone)]])]))
                    else Inr (YDict (d3 @ [(''slides'', YList [])])))
              else Inr (YDict d3))
      | _ \<Rightarrow> Inl TypeError)"

text \<open>The four top-level keys, and an example root.\<close>

definition top_keys :: "string set" where
  "top_keys = {''version'', ''meta'', ''theme'', ''slides''}"

definition ir0 :: "(string \<times> yaml) list" where
  "ir0 = [(''theme'', YDict [(''accent'', YStr ''#FF0000'')]),
          (''components'', YList [YDict [(''tool'', YStr ''x'')]])]"

section \<open>render.py: auto-title injection\<close>

text \<open>
  Lines 320-342 of \<^verbatim>\<open>render_presentation\<close>:
  \<^verbatim>\<open>components = list(slide_spec.get("components", []))\<close>, then, \<^verbatim>\<open>if slide_title:\<close> and
  no component has \<^verbatim>\<open>comp.get("tool") == "slide_title"\<close>, the synthesized title component
  is inserted at index 0.  \<^verbatim>\<open>.get\<close> on a component that is not a dict raises
  AttributeError; \<^verbatim>\<open>any\<close> stops at the first match.
\<close>

definition py_truthy :: "yaml \<Rightarrow> bool" where
  "py_truthy v =
     (case v of YNone \<Rightarrow> False | YBool b \<Rightarrow> b | YInt i \<Rightarrow> i \<noteq> 0 | YFloat r \<Rightarrow> r \<noteq> 0
      | YStr s \<Rightarrow> s \<noteq> [] | YList xs \<Rightarrow> xs \<noteq> [] | YDict d \<Rightarrow> d \<noteq> [])"

definition py_list :: "yaml \<Rightarrow> py_error + yaml list" where
  "py_list v =
     (case v of YList xs \<Rightarrow> Inr xs
      | YStr s \<Rightarrow> Inr (map (\<lambda>c. YStr [c]) s)
      | YDict d \<Rightarrow> Inr (map (\<lambda>kv. YStr (fst kv)) d)
      | _ \<Rightarrow> Inl TypeError)"

definition comp_get :: "yaml \<Rightarrow> string \<Rightarrow> yaml \<Rightarrow> py_error + yaml" where
  "comp_get cmp k dflt =
     (case cmp of YDict d \<Rightarrow> Inr (dict_get d k dflt) | _ \<Rightarrow> Inl AttributeError)"

fun has_slide_title :: "yaml list \<Rightarrow> py_error + bool" where
  "has_slide_title [] = Inr False"
| "has_slide_title (cmp # rest) =
     (case comp_get cmp ''tool'' YNone of Inl e \<Rightarrow> Inl e
      | Inr t \<Rightarrow> (if t = YStr ''slide_title'' then Inr True else has_slide_title rest))"

definition auto_title_comp :: "yaml \<Rightarrow> yaml" where
  "auto_title_comp slide_title =
     YDict [(''tool'', YStr ''slide_title''), (''id'', YStr ''auto_title''),
            (''anchor'', YStr ''title''), (''z_index'', YInt (- 1000)),
            (''data'', YDict [(''title'', slide_title)])]"

definition inject_title :: "(string \<times> yaml) list \<Rightarrow> py_error + yaml list" where
  "inject_title slide_spec =
     (case py_list (dict_get slide_spec ''components'' (YList [])) of Inl e \<Rightarrow> Inl e
      | Inr components \<Rightarrow>
        (let slide_title = dict_get slide_spec ''title'' YNone
         in if py_truthy slide_title
            then (case has_slide_title components of Inl e \<Rightarrow> Inl e
                  | Inr has \<Rightarrow>
                      (if \<not> has then Inr (auto_title_comp slide_title # components)
                       else Inr components))
            else Inr components))"



section \<open>render.py: per-slide render loop\<close>

text \<open>
  The loop over the components of one slide (lines 365-488).  The collaborators outside
  the orchestrator are the fields of \<open>tool_env\<close>: \<^verbatim>\<open>load_schema\<close>, \<^verbatim>\<open>load_renderer\<close>
  and \<^verbatim>\<open>load_tool\<close> (None when nothing is found), the layout resolver, the creation of
  a group shape and the recolouring of text (which changes no field kept here but may
  raise).  A renderer gets the validated data, the geometry, the id of the group it
  draws into (if any) and the shapes of the slide; it returns the shapes afterwards and
  the exception it raised, if any.  The state of the loop is the pair of the slide's
  shapes and the registry \<^verbatim>\<open>context["registry"]["groups"]\<close>.
\<close>

datatype shape = Shape (shape_id: nat) (shape_geom: geom) (members: "shape list")

record registry_entry =
  e_tool :: string
  e_shape_ids :: "nat list"
  e_bbox :: "geom option"
  e_is_group :: bool

type_synonym registry = "(yaml \<times> registry_entry) list"

type_synonym renderer = "yaml \<Rightarrow> geom \<Rightarrow> nat option \<Rightarrow> shape list \<Rightarrow> py_error option \<times> shape list"

record tool_env =
  load_schema :: "string \<Rightarrow> ((string \<times> yaml) list \<Rightarrow> py_error + yaml) option"
  load_renderer :: "string \<Rightarrow> renderer option"
  load_tool :: "string \<Rightarrow> renderer option"
  resolve :: "yaml \<Rightarrow> py_error + geom"
  add_group_shape :: "geom \<Rightarrow> shape list \<Rightarrow> py_error + (nat \<times> shape list)"
  force_text_color :: "shape list \<Rightarrow> py_error option"

text \<open>Decimal digits of an index, for the default id \<^verbatim>\<open>f"{tool_name}_{slide_idx}_{comp_idx}"\<close>.\<close>

definition digit_char :: "nat \<Rightarrow> char" where
  "digit_char n = char_of (48 + n)"

function str_of_nat :: "nat \<Rightarrow> string" where
  "str_of_nat n = (if n < 10 then [digit_char n]
                   else str_of_nat (n div 10) @ [digit_char (n mod 10)])"
  by pat_completeness auto

termination
  by (relation "measure (\<lambda>n. n)") auto

declare str_of_nat.simps [simp del]

text \<open>
  \<^verbatim>\<open>sorted(components, key=lambda c: c.get("z_index", 0))\<close>: a stable sort by the
  numeric key.  The key function raises AttributeError on a component that is not a
  dict; comparing keys that are not numbers raises TypeError (keys are compared only
  when there are at least two).
\<close>

definition znum :: "yaml \<Rightarrow> real option" where
  "znum v = (case v of YInt i \<Rightarrow> Some (of_int i) | YFloat r \<Rightarrow> Some r
             | YBool b \<Rightarrow> Some (if b then 1 else 0) | _ \<Rightarrow> None)"

definition z_index_of :: "yaml \<Rightarrow> yaml" where
  "z_index_of c = (case c of YDict d \<Rightarrow> dict_get d ''z_index'' (YInt 0) | _ \<Rightarrow> YNone)"

definition zkey :: "yaml \<Rightarrow> real" where
  "zkey c = (case znum (z_index_of c) of Some r \<Rightarrow> r | None \<Rightarrow> 0)"

definition sort_components :: "yaml list \<Rightarrow> py_error + yaml list" where
  "sort_components components =
     (if \<not> list_all is_dict components then Inl AttributeError
      else if 2 \<le> length components \<and> \<not> list_all (\<lambda>c. znum (z_index_of c) \<noteq> None) components
           then Inl TypeError
      else Inr (sort_key zkey components))"

text \<open>
  Registry assignment \<^verbatim>\<open>groups[comp_id] = entry\<close> (TypeError for an unhashable id, inside
  the \<^verbatim>\<open>try\<close>), the members of a group shape, and \<^verbatim>\<open>_bbox\<close>.
\<close>

definition hashable :: "yaml \<Rightarrow> bool" where
  "hashable v = (case v of YList xs \<Rightarrow> False | YDict d \<Rightarrow> False | _ \<Rightarrow> True)"

fun dict_set :: "yaml \<Rightarrow> registry_entry \<Rightarrow> registry \<Rightarrow> registry" where
  "dict_set k v [] = [(k, v)]"
| "dict_set k v (p # ps) = (if fst p = k then (k, v) # ps else p # dict_set k v ps)"

definition group_members :: "nat \<Rightarrow> shape list \<Rightarrow> shape list" where
  "group_members gid shapes =
     (case find (\<lambda>s. shape_id s = gid) shapes of None \<Rightarrow> [] | Some g \<Rightarrow> members g)"

definition bbox :: "shape list \<Rightarrow> geom option" where
  "bbox shapes =
     (if shapes = [] then None
      else (let lefts = map (\<lambda>s. left (shape_geom s)) shapes;
                tops = map (\<lambda>s. top (shape_geom s)) shapes;
                rights = map (\<lambda>s. left (shape_geom s) + width (shape_geom s)) shapes;
                bottoms = map (\<lambda>s. top (shape_geom s) + height (shape_geom s)) shapes;
                l = fold min (tl lefts) (hd lefts);
                t = fold min (tl tops) (hd tops)
            in Some \<lparr> left = l, top = t,
                      width = fold max (tl rights) (hd rights) - l,
                      height = fold max (tl bottoms) (hd bottoms) - t \<rparr>))"

text \<open>
  The \<^verbatim>\<open>try\<close> block (lines 423-488): resolve the geometry, render into a fresh group or
  directly on the slide, recolour, and record the registry entry.  Any exception leaves
  the registry as it was and the loop goes on.
\<close>

definition dispatch ::
  "tool_env \<Rightarrow> string \<Rightarrow> yaml \<Rightarrow> yaml \<Rightarrow> renderer \<Rightarrow> yaml \<Rightarrow> shape list \<times> registry
     \<Rightarrow> shape list \<times> registry" where
  "dispatch env tool_name comp_id c tool validated_data st =
     (case resolve env c of
        Inl e \<Rightarrow> st
      | Inr g \<Rightarrow>
        (let use_group = (if tool_name = ''table'' then False
                          else (case c of YDict d \<Rightarrow> py_truthy (dict_get d ''group'' (YBool True))
                                | _ \<Rightarrow> True))
         in if use_group then
              (case add_group_shape env g (fst st) of
                 Inl e \<Rightarrow> st
               | Inr (gid, slide1) \<Rightarrow>
                 (case tool validated_data g (Some gid) slide1 of
                    (Some e, slide2) \<Rightarrow> (slide2, snd st)
                  | (None, slide2) \<Rightarrow>
                    (case force_text_color env (group_members gid slide2) of
                       Some e \<Rightarrow> (slide2, snd st)
                     | None \<Rightarrow>
                       (if hashable comp_id
                        then (slide2,
                              dict_set comp_id
                                \<lparr> e_tool = tool_name,
                                  e_shape_ids = gid # map shape_id (group_members gid slide2),
                                  e_bbox = Some \<lparr> left = left g, top = top g,
                                                   width = width g, height = height g \<rparr>,
                                  e_is_group = True \<rparr> (snd st))
                        else (slide2, snd st)))))
            else
              (let before_ids = set (map shape_id (fst st))
               in case tool validated_data g None (fst st) of
                    (Some e, slide2) \<Rightarrow> (slide2, snd st)
                  | (None, slide2) \<Rightarrow>
                    (let new_shapes = filter (\<lambda>s. shape_id s \<notin> before_ids) slide2
                     in case force_text_color env new_shapes of
                          Some e \<Rightarrow> (slide2, snd st)
                        | None \<Rightarrow>
                          (if hashable comp_id
                           then (slide2,
                                 dict_set comp_id
                                   \<lparr> e_tool = tool_name,
                                     e_shape_ids = map shape_id new_shapes,
                                     e_bbox = bbox new_shapes,
                                     e_is_group = False \<rparr> (snd st))
                           else (slide2, snd st))))))"

text \<open>
  One iteration: a component without a tool is skipped; without a schema the legacy
  tool is tried with the raw data; with a schema, \<^verbatim>\<open>schema_class(**raw_data)\<close> is called
  and a failure skips the component (\<^verbatim>\<open>continue\<close>); then the renderer, or the legacy
  tool, is dispatched.  A truthy tool that is not a string makes the loaders raise
  AttributeError outside any \<^verbatim>\<open>try\<close>.
\<close>

definition validate :: "((string \<times> yaml) list \<Rightarrow> py_error + yaml) \<Rightarrow> yaml \<Rightarrow> py_error + yaml" where
  "validate schema_class raw_data =
     (case raw_data of YDict kw \<Rightarrow> schema_class kw | _ \<Rightarrow> Inl TypeError)"

definition default_comp_id :: "string \<Rightarrow> nat \<Rightarrow> nat \<Rightarrow> string" where
  "default_comp_id tool_name slide_idx comp_idx =
     tool_name @ ''_'' @ str_of_nat slide_idx @ ''_'' @ str_of_nat comp_idx"

definition process_component ::
  "tool_env \<Rightarrow> nat \<Rightarrow> nat \<Rightarrow> yaml \<Rightarrow> shape list \<times> registry \<Rightarrow> py_error + shape list \<times> registry" where
  "process_component env slide_idx comp_idx c st =
     (case c of
        YDict d \<Rightarrow>
          (let tool_name = dict_get d ''tool'' YNone
           in if \<not> py_truthy tool_name then Inr st
              else (case tool_name of
                      YStr tn \<Rightarrow>
                        (let cid = dict_get d ''id'' YNone;
                             comp_id = (if py_truthy cid then cid
                                        else YStr (default_comp_id tn slide_idx comp_idx))
                         in case load_schema env tn of
                              None \<Rightarrow>
                                (case load_tool env tn of
                                   None \<Rightarrow> Inr st
                                 | Some tool \<Rightarrow>
                                     Inr (dispatch env tn comp_id c tool
                                            (dict_get d ''data'' (YDict [])) st))
                            | Some schema_class \<Rightarrow>
                                (case validate schema_class (dict_get d ''data'' (YDict [])) of
                                   Inl e \<Rightarrow> Inr st
                                 | Inr validated_data \<Rightarrow>
                                     (case load_renderer env tn of
                                        None \<Rightarrow>
                                          (case load_tool env tn of
                                             None \<Rightarrow> Inr st
                                           | Some tool \<Rightarrow>
                                               Inr (dispatch env tn comp_id c tool validated_data st))
                                      | Some renderer_module \<Rightarrow>
                                          Inr (dispatch env tn comp_id c renderer_module
                                                 validated_data st))))
                    | _ \<Rightarrow> Inl AttributeError))
      | _ \<Rightarrow> Inl AttributeError)"

fun process_components ::
  "tool_env \<Rightarrow> nat \<Rightarrow> nat \<Rightarrow> yaml list \<Rightarrow> shape list \<times> registry \<Rightarrow> py_error + shape list \<times> registry" where
  "process_components env slide_idx comp_idx [] st = Inr st"
| "process_components env slide_idx comp_idx (c # rest) st =
     (case process_component env slide_idx comp_idx c st of
        Inl e \<Rightarrow> Inl e
      | Inr st' \<Rightarrow> process_components env slide_idx (comp_idx + 1) rest st')"

definition render_slide ::
  "tool_env \<Rightarrow> nat \<Rightarrow> (string \<times> yaml) list \<Rightarrow> shape list \<Rightarrow> py_error + shape list \<times> registry" where
  "render_slide env slide_idx slide_spec blank =
     (case inject_title slide_spec of
        Inl e \<Rightarrow> Inl e
      | Inr components \<Rightarrow>
        (case sort_components components of
           Inl e \<Rightarrow> Inl e
         | Inr ordered \<Rightarrow> process_components env slide_idx 1 ordered (blank, [])))"

text \<open>
  A component whose schema validation raises: a dict with a non-empty tool name for which
  a schema is found and rejects the data.
\<close>

definition validation_fails :: "tool_env \<Rightarrow> yaml \<Rightarrow> bool" where
  "validation_fails env c \<longleftrightarrow>
     (\<exists>d tn sc e. c = YDict d \<and> dict_get d ''tool'' YNone = YStr tn \<and> tn \<noteq> []
        \<and> load_schema env tn = Some sc
        \<and> validate sc (dict_get d ''data'' (YDict [])) = Inl e)"

text \<open>The slide with one valid and one failing component, and example collaborators.\<close>

definition valid_comp :: yaml where
  "valid_comp = YDict [(''tool'', YStr ''valid''), (''z_index'', YInt 1)]"

definition broken_comp :: yaml where
  "broken_comp = YDict [(''tool'', YStr ''broken''), (''z_index'', YInt 0)]"

definition scenario_slide :: "(string \<times> yaml) list" where
  "scenario_slide = [(''components'', YList [valid_comp, broken_comp])]"

definition geom1 :: geom where
  "geom1 = \<lparr> left = 10, top = 20, width = 300, height = 200 \<rparr>"

definition env1 :: tool_env where
  "env1 = \<lparr> load_schema = (\<lambda>tn. if tn = ''valid'' then Some (\<lambda>kw. Inr (YDict kw))
                               else if tn = ''broken'' then Some (\<lambda>kw. Inl ValidationError)
                               else None),
             load_renderer = (\<lambda>tn. if tn = ''valid''
                                 then Some (\<lambda>data g target slide. (None, slide)) else None),
             load_tool = (\<lambda>tn. None),
             resolve = (\<lambda>c. Inr geom1),
             add_group_shape = (\<lambda>g slide. Inr (Suc (length slide),
                                               slide @ [Shape (Suc (length slide)) g []])),
             force_text_color = (\<lambda>shapes. None) \<rparr>"

section \<open>Properties of the percent conversion\<close>






section \<open>Properties of the box layout\<close>

lemma layout_in_band_aux:
  "(\<forall>bs. layout E nd col x y0 w h0 = Inr bs \<longrightarrow> (\<forall>b\<in>set bs. in_band E b))"
  "(\<forall>bs. layout_children E col L i cy chs = Inr bs \<longrightarrow> (\<forall>b\<in>set bs. in_band E b))"
proof (induction E nd col x y0 w h0 and E col L i cy chs rule: layout_layout_children.induct)
  case (1 E nm wt chs col x y0 w h0)
  show ?case
  proof (cases "chs = []")
    case True
    then show ?thesis by (simp add: Let_def in_band_def)
  next
    case False
    then show ?thesis
      using 1 by (auto simp: Let_def in_band_def split: sum.splits)
  qed
next
  case (2 E col L i cy)
  show ?case by simp
next
  case (3 E col L i cy ch rest)
  show ?case
    using 3 by (auto split: sum.splits)
qed

lemma layout_roots_in_band:
  "layout_roots E L i cy items = Inr bs \<Longrightarrow> \<forall>b\<in>set bs. in_band E b"
proof (induction items arbitrary: i cy bs)
  case Nil
  then show ?case by simp
next
  case (Cons item rest)
  then show ?case
    using layout_in_band_aux(1) by (fastforce split: sum.splits)
qed

lemma render_boxes_in_band:
  assumes "render_boxes g headers root_data = Inr bs" and "b \<in> set bs"
  shows "content_top (mk_env g headers root_data) \<le> b_y b
         \<and> b_y b + b_h b \<le> content_top (mk_env g headers root_data) + content_h (mk_env g headers root_data)"
proof (cases root_data)
  case (Single nd)
  then show ?thesis
    using assms layout_in_band_aux(1)
    by (fastforce simp: render_boxes_def Let_def in_band_def split: sum.splits)
next
  case (Roots items)
  then show ?thesis
    using assms layout_roots_in_band
    by (fastforce simp: render_boxes_def Let_def in_band_def split: sum.splits if_splits)
qed



































lemma layout_first_box:
  "layout E nd col x y0 w h0 = Inr bs \<Longrightarrow>
     bs \<noteq> [] \<and> hd bs = \<lparr> b_node = nd, b_col = col, b_x = x, b_y = max y0 (content_top E), b_w = w,
                          b_h = min h0 (content_top E + content_h E - max y0 (content_top E)) \<rparr>"
  by (cases nd) (auto simp: Let_def split: if_splits sum.splits)

text \<open>
  Claim C10: every box recorded by \<^const>\<open>layout\<close>, at any depth, lies in the vertical
  content band: its top is at least \<open>content_top\<close> and its bottom edge \<open>top + height\<close> is
  at most \<open>content_top + content_h\<close>; the node's own box has \<open>y = max(y, content_top)\<close> and
  \<open>h = min(h, bottom - y)\<close>.
\<close>

theorem layout_boxes_in_content_band:
  assumes "layout E nd col x y0 w h0 = Inr bs" and "b \<in> set bs"
  shows "content_top E \<le> b_y b \<and> b_y b + b_h b \<le> content_top E + content_h E
         \<and> b_y (hd bs) = max y0 (content_top E)
         \<and> b_h (hd bs) = min h0 (content_top E + content_h E - max y0 (content_top E))"
  using assms layout_in_band_aux(1) [of E nd col x y0 w h0] layout_first_box [OF assms(1)]
  by (simp add: in_band_def)

theorem layout_boxes_in_content_band_witness:
  "layout env0 (Node ''p'' None [leaf ''a'' None, leaf ''b'' None]) 0 0 (- 5) 194 200 =
     Inr [\<lparr> b_node = Node ''p'' None [leaf ''a'' None, leaf ''b'' None],
             b_col = 0, b_x = 0, b_y = 0, b_w = 194, b_h = 100 \<rparr>,
          \<lparr> b_node = leaf ''a'' None, b_col = 1, b_x = 224, b_y = 0, b_w = 776, b_h = 20 \<rparr>,
          \<lparr> b_node = leaf ''b'' None, b_col = 1, b_x = 224, b_y = 80, b_w = 776, b_h = 20 \<rparr>]
   \<and> content_top env0 \<le> 80 \<and> 80 + 20 \<le> content_top env0 + content_h env0"
proof -
  have ev: "layout env0 (Node ''p'' None [leaf ''a'' None, leaf ''b'' None]) 0 0 (- 5) 194 200 =
     Inr [\<lparr> b_node = Node ''p'' None [leaf ''a'' None, leaf ''b'' None],
             b_col = 0, b_x = 0, b_y = 0, b_w = 194, b_h = 100 \<rparr>,
          \<lparr> b_node = leaf ''a'' None, b_col = 1, b_x = 224, b_y = 0, b_w = 776, b_h = 20 \<rparr>,
          \<lparr> b_node = leaf ''b'' None, b_col = 1, b_x = 224, b_y = 80, b_w = 776, b_h = 20 \<rparr>]"
    by code_simp
  show ?thesis
    using ev layout_boxes_in_content_band [OF ev,
        of "\<lparr> b_node = leaf ''b'' None, b_col = 1, b_x = 224, b_y = 80, b_w = 776, b_h = 20 \<rparr>"]
    by simp
qed
















section \<open>Properties of the connector router\<close>

lemma aligned_sym: "h_aligned a b = h_aligned b a" "v_aligned a b = v_aligned b a"
  by (simp_all add: h_aligned_def v_aligned_def abs_minus_commute add.commute)

lemma calc_rule1_right:
  "h_aligned a b \<Longrightarrow> gx a + gw a \<le> gx b \<Longrightarrow>
   calc_conn_points_and_sites a b m =
     (((of_int (gx a + gw a + m), snd (center a)), (of_int (gx b - m), snd (center b))),
      (3, 1), STRAIGHT)"
  by (simp add: calc_conn_points_and_sites_def Let_def h_aligned_def center_def)

lemma calc_rule1_left:
  "h_aligned a b \<Longrightarrow> \<not> gx a + gw a \<le> gx b \<Longrightarrow> gx b + gw b \<le> gx a \<Longrightarrow>
   calc_conn_points_and_sites a b m =
     (((of_int (gx a - m), snd (center a)), (of_int (gx b + gw b + m), snd (center b))),
      (1, 3), STRAIGHT)"
  by (simp add: calc_conn_points_and_sites_def Let_def h_aligned_def center_def)

lemma calc_rule2_down:
  "\<not> (h_aligned a b \<and> (gx a + gw a \<le> gx b \<or> gx b + gw b \<le> gx a)) \<Longrightarrow>
   v_aligned a b \<Longrightarrow> gy a + gh a \<le> gy b \<Longrightarrow>
   calc_conn_points_and_sites a b m =
     (((fst (center a), of_int (gy a + gh a + m)), (fst (center b), of_int (gy b - m))),
      (2, 0), STRAIGHT)"
  by (simp add: calc_conn_points_and_sites_def Let_def h_aligned_def v_aligned_def center_def)

lemma calc_rule2_up:
  "\<not> (h_aligned a b \<and> (gx a + gw a \<le> gx b \<or> gx b + gw b \<le> gx a)) \<Longrightarrow>
   v_aligned a b \<Longrightarrow> \<not> gy a + gh a \<le> gy b \<Longrightarrow> gy b + gh b \<le> gy a \<Longrightarrow>
   calc_conn_points_and_sites a b m =
     (((fst (center a), of_int (gy a - m)), (fst (center b), of_int (gy b + gh b + m))),
      (0, 2), STRAIGHT)"
  by (simp add: calc_conn_points_and_sites_def Let_def h_aligned_def v_aligned_def center_def)

lemma calc_rule3:
  "\<not> (h_aligned a b \<and> (gx a + gw a \<le> gx b \<or> gx b + gw b \<le> gx a)) \<Longrightarrow>
   \<not> (v_aligned a b \<and> (gy a + gh a \<le> gy b \<or> gy b + gh b \<le> gy a)) \<Longrightarrow>
   calc_conn_points_and_sites a b m =
     ((center a, center b),
      (if \<bar>fst (center b) - fst (center a)\<bar> \<ge> \<bar>snd (center b) - snd (center a)\<bar>
       then (if fst (center b) > fst (center a) then (3, 1) else (1, 3))
       else (if snd (center b) > snd (center a) then (2, 0) else (0, 2))),
      ELBOW)"
  by (simp add: calc_conn_points_and_sites_def Let_def h_aligned_def v_aligned_def center_def)

text \<open>
  Claim C4, as stated (for every pair of boxes classified as straight, swapping the inputs
  mirrors the site pair), fails for two zero-width boxes at the same x: each one's right
  edge is at the other's left edge, so rule 1 takes its first branch in both directions
  and both routes get the sites \<open>(3, 1)\<close>.
\<close>

theorem route_swap_counterexample:
  "conn_type (calc_conn_points_and_sites
       (rel_to_abs g1000 \<lparr> pos_x = 25, pos_y = 25, pos_w = 0, pos_h = 50 \<rparr>)
       (rel_to_abs g1000 \<lparr> pos_x = 25, pos_y = 75 / 2, pos_w = 0, pos_h = 50 \<rparr>) 0) = STRAIGHT
   \<and> conn_sites (calc_conn_points_and_sites
       (rel_to_abs g1000 \<lparr> pos_x = 25, pos_y = 25, pos_w = 0, pos_h = 50 \<rparr>)
       (rel_to_abs g1000 \<lparr> pos_x = 25, pos_y = 75 / 2, pos_w = 0, pos_h = 50 \<rparr>) 0) = (3, 1)
   \<and> conn_sites (calc_conn_points_and_sites
       (rel_to_abs g1000 \<lparr> pos_x = 25, pos_y = 75 / 2, pos_w = 0, pos_h = 50 \<rparr>)
       (rel_to_abs g1000 \<lparr> pos_x = 25, pos_y = 25, pos_w = 0, pos_h = 50 \<rparr>) 0) = (3, 1)
   \<and> conn_sites (calc_conn_points_and_sites
       (rel_to_abs g1000 \<lparr> pos_x = 25, pos_y = 75 / 2, pos_w = 0, pos_h = 50 \<rparr>)
       (rel_to_abs g1000 \<lparr> pos_x = 25, pos_y = 25, pos_w = 0, pos_h = 50 \<rparr>) 0)
     \<noteq> prod.swap (conn_sites (calc_conn_points_and_sites
       (rel_to_abs g1000 \<lparr> pos_x = 25, pos_y = 25, pos_w = 0, pos_h = 50 \<rparr>)
       (rel_to_abs g1000 \<lparr> pos_x = 25, pos_y = 75 / 2, pos_w = 0, pos_h = 50 \<rparr>) 0))"
  by (simp add: g1000_def rel_to_abs_def py_int_def calc_conn_points_and_sites_def Let_def
      conn_type_def conn_sites_def)

text \<open>
  Claim C4, amended: for every pair of boxes that the cascade classifies as straight and
  that are not separated in both directions at once (horizontally: each right edge at or
  left of the other's left edge; vertically likewise), routing the swapped pair is again
  straight, with the mirrored site pair and with start and end points exchanged; the
  site pair is one of \<open>(3,1)\<close>, \<open>(1,3)\<close>, \<open>(2,0)\<close>, \<open>(0,2)\<close>.
\<close>

theorem route_swap:
  assumes st: "conn_type (calc_conn_points_and_sites a b m) = STRAIGHT"
    and w: "\<not> (gx a + gw a \<le> gx b \<and> gx b + gw b \<le> gx a)"
    and h: "\<not> (gy a + gh a \<le> gy b \<and> gy b + gh b \<le> gy a)"
  shows "conn_type (calc_conn_points_and_sites b a m) = STRAIGHT
       \<and> conn_sites (calc_conn_points_and_sites b a m) = prod.swap (conn_sites (calc_conn_points_and_sites a b m))
       \<and> conn_points (calc_conn_points_and_sites b a m) = prod.swap (conn_points (calc_conn_points_and_sites a b m))
       \<and> conn_sites (calc_conn_points_and_sites a b m) \<in> {(3, 1), (1, 3), (2, 0), (0, 2)}"
proof (cases "h_aligned a b \<and> (gx a + gw a \<le> gx b \<or> gx b + gw b \<le> gx a)")
  case True
  then have ha: "h_aligned a b" and hb: "h_aligned b a"
    using aligned_sym(1) [of a b] by simp_all
  show ?thesis
  proof (cases "gx a + gw a \<le> gx b")
    case True
    then have nb: "\<not> gx b + gw b \<le> gx a" using w by simp
    show ?thesis
      using calc_rule1_right [OF ha True, of m] calc_rule1_left [OF hb nb True, of m]
      by (simp add: conn_type_def conn_sites_def conn_points_def)
  next
    case False
    then have b: "gx b + gw b \<le> gx a" using \<open>h_aligned a b \<and> _\<close> by simp
    show ?thesis
      using calc_rule1_left [OF ha False b, of m] calc_rule1_right [OF hb b, of m]
      by (simp add: conn_type_def conn_sites_def conn_points_def)
  qed
next
  case False
  note n1 = this
  then have n1': "\<not> (h_aligned b a \<and> (gx b + gw b \<le> gx a \<or> gx a + gw a \<le> gx b))"
    using aligned_sym(1) [of a b] by auto
  show ?thesis
  proof (cases "v_aligned a b \<and> (gy a + gh a \<le> gy b \<or> gy b + gh b \<le> gy a)")
    case True
    then have va: "v_aligned a b" and vb: "v_aligned b a"
      using aligned_sym(2) [of a b] by simp_all
    show ?thesis
    proof (cases "gy a + gh a \<le> gy b")
      case True
      then have nb: "\<not> gy b + gh b \<le> gy a" using h by simp
      show ?thesis
        using calc_rule2_down [OF n1 va True, of m] calc_rule2_up [OF n1' vb nb True, of m]
        by (simp add: conn_type_def conn_sites_def conn_points_def)
    next
      case False
      then have b: "gy b + gh b \<le> gy a" using \<open>v_aligned a b \<and> _\<close> by simp
      show ?thesis
        using calc_rule2_up [OF n1 va False b, of m] calc_rule2_down [OF n1' vb b, of m]
        by (simp add: conn_type_def conn_sites_def conn_points_def)
    qed
  next
    case False
    then show ?thesis
      using st calc_rule3 [OF n1 False, of m] by (simp add: conn_type_def)
  qed
qed

theorem route_swap_witness:
  "conn_type (calc_conn_points_and_sites \<lparr> gx = 0, gy = 0, gw = 100, gh = 100 \<rparr>
        \<lparr> gx = 200, gy = 10, gw = 100, gh = 100 \<rparr> 5) = STRAIGHT
   \<and> calc_conn_points_and_sites \<lparr> gx = 0, gy = 0, gw = 100, gh = 100 \<rparr>
        \<lparr> gx = 200, gy = 10, gw = 100, gh = 100 \<rparr> 5 = (((105, 50), (195, 60)), (3, 1), STRAIGHT)
   \<and> calc_conn_points_and_sites \<lparr> gx = 200, gy = 10, gw = 100, gh = 100 \<rparr>
        \<lparr> gx = 0, gy = 0, gw = 100, gh = 100 \<rparr> 5 = (((195, 60), (105, 50)), (1, 3), STRAIGHT)"
proof -
  let ?a = "\<lparr> gx = 0, gy = 0, gw = 100, gh = 100 \<rparr>"
  let ?b = "\<lparr> gx = 200, gy = 10, gw = 100, gh = 100 \<rparr>"
  have ab: "calc_conn_points_and_sites ?a ?b 5 = (((105, 50), (195, 60)), (3, 1), STRAIGHT)"
    by (simp add: calc_conn_points_and_sites_def Let_def)
  have st: "conn_type (calc_conn_points_and_sites ?a ?b 5) = STRAIGHT"
    unfolding ab by (simp add: conn_type_def)
  have w: "\<not> (gx ?a + gw ?a \<le> gx ?b \<and> gx ?b + gw ?b \<le> gx ?a)" by simp
  have h: "\<not> (gy ?a + gh ?a \<le> gy ?b \<and> gy ?b + gh ?b \<le> gy ?a)" by simp
  have "calc_conn_points_and_sites ?b ?a 5 = (((195, 60), (105, 50)), (1, 3), STRAIGHT)"
    using route_swap [OF st w h] unfolding ab
    by (cases "calc_conn_points_and_sites ?b ?a 5")
       (auto simp: conn_type_def conn_sites_def conn_points_def)
  then show ?thesis using ab st by simp
qed

lemma same_center_int:
  assumes "center a = center b"
  shows "2 * gx a + gw a = 2 * gx b + gw b" and "2 * gy a + gh a = 2 * gy b + gh b"
proof -
  have cx: "real_of_int (gx a) + real_of_int (gw a) / 2 = real_of_int (gx b) + real_of_int (gw b) / 2"
    and cy: "real_of_int (gy a) + real_of_int (gh a) / 2 = real_of_int (gy b) + real_of_int (gh b) / 2"
    using assms by (simp_all add: center_def)
  have "real_of_int (2 * gx a + gw a) = real_of_int (2 * gx b + gw b)"
    using cx by simp
  then show "2 * gx a + gw a = 2 * gx b + gw b"
    by (simp only: of_int_eq_iff)
  have "real_of_int (2 * gy a + gh a) = real_of_int (2 * gy b + gh b)"
    using cy by simp
  then show "2 * gy a + gh a = 2 * gy b + gh b"
    by (simp only: of_int_eq_iff)
qed

lemma same_center_sep:
  assumes "center a = center b"
  shows "gx a + gw a \<le> gx b \<longleftrightarrow> gw a + gw b \<le> 0"
    and "gx b + gw b \<le> gx a \<longleftrightarrow> gw a + gw b \<le> 0"
    and "gy a + gh a \<le> gy b \<longleftrightarrow> gh a + gh b \<le> 0"
    and "gy b + gh b \<le> gy a \<longleftrightarrow> gh a + gh b \<le> 0"
  using same_center_int [OF assms] by linarith+

lemma same_center_aligned:
  assumes "center a = center b"
  shows "h_aligned a b \<longleftrightarrow> 0 < gh a + gh b" and "v_aligned a b \<longleftrightarrow> 0 < gw a + gw b"
proof -
  have "h_aligned a b \<longleftrightarrow> 0 < real_of_int (gh a + gh b)"
    using assms by (simp add: h_aligned_def)
  then show "h_aligned a b \<longleftrightarrow> 0 < gh a + gh b"
    by (simp only: of_int_0_less_iff)
  have "v_aligned a b \<longleftrightarrow> 0 < real_of_int (gw a + gw b)"
    using assms by (simp add: v_aligned_def)
  then show "v_aligned a b \<longleftrightarrow> 0 < gw a + gw b"
    by (simp only: of_int_0_less_iff)
qed

text \<open>
  Claim C5, as stated (two boxes with the same center always classify as elbow), fails
  for two zero-width boxes: their edges touch, the vertical center offset 0 is below a
  quarter of the summed heights, and rule 1 returns a straight connector.
\<close>

theorem same_center_counterexample:
  "center (rel_to_abs g1000 \<lparr> pos_x = 25, pos_y = 25, pos_w = 0, pos_h = 50 \<rparr>)
     = center (rel_to_abs g1000 \<lparr> pos_x = 25, pos_y = 75 / 2, pos_w = 0, pos_h = 25 \<rparr>)
   \<and> calc_conn_points_and_sites
       (rel_to_abs g1000 \<lparr> pos_x = 25, pos_y = 25, pos_w = 0, pos_h = 50 \<rparr>)
       (rel_to_abs g1000 \<lparr> pos_x = 25, pos_y = 75 / 2, pos_w = 0, pos_h = 25 \<rparr>) 0
     = (((250, 500), (250, 500)), (3, 1), STRAIGHT)"
  by (simp add: g1000_def rel_to_abs_def py_int_def calc_conn_points_and_sites_def Let_def
      center_def)

text \<open>
  Claim C5, amended: for every pair of boxes whose centers coincide the router returns
  an elbow connector exactly when neither the widths sum to at most 0 while the heights
  sum to more than 0 (rule 1 fires) nor the heights sum to at most 0 while the widths
  sum to more than 0 (rule 2 fires), in particular for any two boxes of positive width
  and height; the elbow then runs between the two centers with the site pair \<open>(1, 3)\<close>.
\<close>

theorem same_center_route:
  assumes c: "center a = center b"
  shows "(conn_type (calc_conn_points_and_sites a b m) = ELBOW
            \<longleftrightarrow> \<not> (gw a + gw b \<le> 0 \<and> 0 < gh a + gh b) \<and> \<not> (gh a + gh b \<le> 0 \<and> 0 < gw a + gw b))
       \<and> (conn_type (calc_conn_points_and_sites a b m) = ELBOW \<longrightarrow>
            calc_conn_points_and_sites a b m = ((center a, center b), (1, 3), ELBOW))"
proof (cases "h_aligned a b \<and> (gx a + gw a \<le> gx b \<or> gx b + gw b \<le> gx a)")
  case True
  then have r1: "gw a + gw b \<le> 0 \<and> 0 < gh a + gh b"
    using same_center_sep(1,2) [OF c] same_center_aligned(1) [OF c] by blast
  have "conn_type (calc_conn_points_and_sites a b m) = STRAIGHT"
  proof (cases "gx a + gw a \<le> gx b")
    case t: True
    show ?thesis using calc_rule1_right [of a b m] True t by (simp add: conn_type_def)
  next
    case f: False
    show ?thesis using calc_rule1_left [of a b m] True f by (simp add: conn_type_def)
  qed
  then show ?thesis using r1 by simp
next
  case False
  note n1 = this
  then have nr1: "\<not> (gw a + gw b \<le> 0 \<and> 0 < gh a + gh b)"
    using same_center_sep(1,2) [OF c] same_center_aligned(1) [OF c] by blast
  show ?thesis
  proof (cases "v_aligned a b \<and> (gy a + gh a \<le> gy b \<or> gy b + gh b \<le> gy a)")
    case True
    then have r2: "gh a + gh b \<le> 0 \<and> 0 < gw a + gw b"
      using same_center_sep(3,4) [OF c] same_center_aligned(2) [OF c] by blast
    have "conn_type (calc_conn_points_and_sites a b m) = STRAIGHT"
    proof (cases "gy a + gh a \<le> gy b")
      case t: True
      show ?thesis using calc_rule2_down [OF n1, of m] True t by (simp add: conn_type_def)
    next
      case f: False
      show ?thesis using calc_rule2_up [OF n1, of m] True f by (simp add: conn_type_def)
    qed
    then show ?thesis using r2 by simp
  next
    case False
    then have nr2: "\<not> (gh a + gh b \<le> 0 \<and> 0 < gw a + gw b)"
      using same_center_sep(3,4) [OF c] same_center_aligned(2) [OF c] by blast
    show ?thesis
      using calc_rule3 [OF n1 False, of m] nr1 nr2 c by (simp add: conn_type_def)
  qed
qed

theorem same_center_route_witness:
  "center \<lparr> gx = 0, gy = 0, gw = 100, gh = 100 \<rparr> = center \<lparr> gx = 25, gy = 25, gw = 50, gh = 50 \<rparr>
   \<and> calc_conn_points_and_sites \<lparr> gx = 0, gy = 0, gw = 100, gh = 100 \<rparr>
        \<lparr> gx = 25, gy = 25, gw = 50, gh = 50 \<rparr> 0 = (((50, 50), (50, 50)), (1, 3), ELBOW)"
proof -
  let ?a = "\<lparr> gx = 0, gy = 0, gw = 100, gh = 100 \<rparr>"
  let ?b = "\<lparr> gx = 25, gy = 25, gw = 50, gh = 50 \<rparr>"
  have c: "center ?a = center ?b" by (simp add: center_def)
  have ca: "center ?a = (50, 50)" by (simp add: center_def)
  have "conn_type (calc_conn_points_and_sites ?a ?b 0) = ELBOW"
    using same_center_route [OF c, of 0] by simp
  then have "calc_conn_points_and_sites ?a ?b 0 = ((center ?a, center ?b), (1, 3), ELBOW)"
    using same_center_route [OF c, of 0] by blast
  then show ?thesis using c ca by simp
qed

section \<open>Properties of the IR normalizer\<close>

lemma dict_in_keys: "dict_in k d \<longleftrightarrow> k \<in> dict_keys d"
  by (simp add: dict_in_def dict_keys_def map_of_eq_None_iff)

lemma setdefault_keys: "dict_keys (setdefault k v d) = insert k (dict_keys d)"
  by (auto simp: setdefault_def dict_in_keys dict_keys_def)

lemma setdefault_lookup: "k' \<in> dict_keys d \<Longrightarrow> map_of (setdefault k v d) k' = map_of d k'"
  by (auto simp: setdefault_def dict_keys_def map_add_def map_of_eq_None_iff split: option.splits)

lemma append_lookup: "k' \<in> dict_keys d \<Longrightarrow> map_of (d @ e) k' = map_of d k'"
  by (auto simp: dict_keys_def map_add_def map_of_eq_None_iff split: option.splits)

lemma append_keys: "dict_keys (d @ [(k, v)]) = insert k (dict_keys d)"
  by (auto simp: dict_keys_def)

lemma normalize_dict:
  "\<exists>d. normalize_ir (YDict d0) = Inr (YDict d)
       \<and> dict_keys d = dict_keys d0 \<union> top_keys
       \<and> (\<forall>k. k \<in> dict_keys d0 \<longrightarrow> map_of d k = map_of d0 k)"
proof -
  let ?d1 = "setdefault ''version'' (YInt 1) d0"
  let ?d2 = "setdefault ''meta'' (YDict []) ?d1"
  let ?d3 = "setdefault ''theme'' (YDict []) ?d2"
  have k3: "dict_keys ?d3 = insert ''theme'' (insert ''meta'' (insert ''version'' (dict_keys d0)))"
    by (simp only: setdefault_keys)
  have tk: "dict_keys d0 \<union> top_keys =
      insert ''slides'' (insert ''theme'' (insert ''meta'' (insert ''version'' (dict_keys d0))))"
    unfolding top_keys_def by blast
  have l3: "map_of ?d3 k = map_of d0 k" if "k \<in> dict_keys d0" for k
  proof -
    have a: "map_of ?d1 k = map_of d0 k" using that by (rule setdefault_lookup)
    have "k \<in> dict_keys ?d1" using that by (simp only: setdefault_keys insert_iff) blast
    then have b: "map_of ?d2 k = map_of ?d1 k" by (rule setdefault_lookup)
    have "k \<in> dict_keys ?d2" using that by (simp only: setdefault_keys insert_iff) blast
    then have c: "map_of ?d3 k = map_of ?d2 k" by (rule setdefault_lookup)
    show ?thesis using a b c by (simp only:)
  qed
  have "\<exists>d. normalize_ir (YDict d0) = Inr (YDict d)
          \<and> (d = ?d3 \<and> ''slides'' \<in> dict_keys ?d3 \<or> (\<exists>v. d = ?d3 @ [(''slides'', v)]))"
  proof (cases "dict_in ''slides'' ?d3")
    case True
    then show ?thesis
      by (simp add: normalize_ir_def Let_def dict_in_keys)
  next
    case False
    then show ?thesis
      by (cases "dict_in ''components'' ?d3") (simp_all add: normalize_ir_def Let_def)
  qed
  then obtain d where d: "normalize_ir (YDict d0) = Inr (YDict d)"
    and dd: "d = ?d3 \<and> ''slides'' \<in> dict_keys ?d3 \<or> (\<exists>v. d = ?d3 @ [(''slides'', v)])"
    by blast
  have keys: "dict_keys d = dict_keys d0 \<union> top_keys"
  proof -
    from dd show ?thesis
    proof
      assume "d = ?d3 \<and> ''slides'' \<in> dict_keys ?d3"
      then have "dict_keys d = insert ''slides'' (dict_keys ?d3)" by blast
      then show ?thesis unfolding tk k3 .
    next
      assume "\<exists>v. d = ?d3 @ [(''slides'', v)]"
      then have "dict_keys d = insert ''slides'' (dict_keys ?d3)"
        using append_keys by blast
      then show ?thesis unfolding tk k3 .
    qed
  qed
  have look: "map_of d k = map_of d0 k" if "k \<in> dict_keys d0" for k
  proof -
    have "k \<in> dict_keys ?d3" using that unfolding k3 by blast
    then have "map_of d k = map_of ?d3 k"
      using dd append_lookup by blast
    then show ?thesis using l3 [OF that] by (simp only:)
  qed
  show ?thesis using d keys look by blast
qed

lemma normalize_list:
  "\<exists>d. normalize_ir (YList xs) = Inr (YDict d) \<and> dict_keys d = top_keys"
proof -
  have "dict_keys [(''version'', YInt 1), (''meta'', YDict []), (''theme'', YDict []), (''slides'', v)]
          = top_keys" for v
    unfolding dict_keys_def top_keys_def by (simp only: list.set image_insert fst_conv image_empty)
  then show ?thesis
    by (simp add: normalize_ir_def mk_min_def)
qed

text \<open>
  Claim C8: \<^const>\<open>normalize_ir\<close> raises (TypeError) exactly when the root is neither a
  list nor a dict; for a list or dict root it returns a dict with the four top-level keys
  \<open>version\<close>, \<open>meta\<close>, \<open>theme\<close>, \<open>slides\<close>; for a dict root the result has the keys of
  the input plus those four, every key of the input keeps its value, and every added key
  is one of the four.
\<close>

theorem normalize_ir_total_on_list_dict:
  "((\<exists>e. normalize_ir ir = Inl e) \<longleftrightarrow> \<not> is_list ir \<and> \<not> is_dict ir)
   \<and> (is_list ir \<or> is_dict ir \<longrightarrow>
        (\<exists>d. normalize_ir ir = Inr (YDict d) \<and> top_keys \<subseteq> dict_keys d))
   \<and> (\<forall>d0. ir = YDict d0 \<longrightarrow>
        (\<exists>d. normalize_ir ir = Inr (YDict d)
            \<and> dict_keys d = dict_keys d0 \<union> top_keys
            \<and> (\<forall>k. k \<in> dict_keys d0 \<longrightarrow> map_of d k = map_of d0 k)
            \<and> (\<forall>k. k \<in> dict_keys d \<and> k \<notin> dict_keys d0 \<longrightarrow> k \<in> top_keys)))"
proof (cases ir)
  case (YList xs)
  then show ?thesis
    using normalize_list [of xs] by (auto simp: is_list_def is_dict_def)
next
  case (YDict d0)
  then show ?thesis
    using normalize_dict [of d0] by (auto simp: is_list_def is_dict_def)
qed (simp_all add: normalize_ir_def is_list_def is_dict_def)

theorem normalize_ir_total_on_list_dict_witness:
  "(\<exists>e. normalize_ir (YStr ''abc'') = Inl e)
   \<and> is_dict (YDict ir0)
   \<and> ''theme'' \<in> dict_keys ir0
   \<and> (\<exists>d. normalize_ir (YDict ir0) = Inr (YDict d)
          \<and> map_of d ''theme'' = Some (YDict [(''accent'', YStr ''#FF0000'')])
          \<and> dict_keys d = dict_keys ir0 \<union> top_keys)
   \<and> normalize_ir (YDict ir0) =
       Inr (YDict [(''theme'', YDict [(''accent'', YStr ''#FF0000'')]),
                   (''components'', YList [YDict [(''tool'', YStr ''x'')]]),
                   (''version'', YInt 1), (''meta'', YDict []),
                   (''slides'',
                    YList [YDict [(''id'', YStr ''auto_1''), (''background'', YStr ''#FFFFFF''),
                                  (''layout'', YNone),
                                  (''components'', YList [YDict [(''tool'', YStr ''x'')]])]])])"
proof -
  have a: "\<exists>e. normalize_ir (YStr ''abc'') = Inl e"
    using normalize_ir_total_on_list_dict [of "YStr ''abc''"]
    by (simp add: is_list_def is_dict_def)
  have b: "is_dict (YDict ir0)" by (simp add: is_dict_def)
  have k: "''theme'' \<in> dict_keys ir0" by (simp add: dict_keys_def ir0_def)
  have m: "map_of ir0 ''theme'' = Some (YDict [(''accent'', YStr ''#FF0000'')])"
    by (simp add: ir0_def)
  have "\<exists>d. normalize_ir (YDict ir0) = Inr (YDict d)
            \<and> dict_keys d = dict_keys ir0 \<union> top_keys
            \<and> (\<forall>k. k \<in> dict_keys ir0 \<longrightarrow> map_of d k = map_of ir0 k)"
    using normalize_ir_total_on_list_dict [of "YDict ir0"] by blast
  then have c: "\<exists>d. normalize_ir (YDict ir0) = Inr (YDict d)
          \<and> map_of d ''theme'' = Some (YDict [(''accent'', YStr ''#FF0000'')])
          \<and> dict_keys d = dict_keys ir0 \<union> top_keys"
    using k m by metis
  have ev: "normalize_ir (YDict ir0) =
       Inr (YDict [(''theme'', YDict [(''accent'', YStr ''#FF0000'')]),
                   (''components'', YList [YDict [(''tool'', YStr ''x'')]]),
                   (''version'', YInt 1), (''meta'', YDict []),
                   (''slides'',
                    YList [YDict [(''id'', YStr ''auto_1''), (''background'', YStr ''#FFFFFF''),
                                  (''layout'', YNone),
                                  (''components'', YList [YDict [(''tool'', YStr ''x'')]])]])])"
    by code_simp
  show ?thesis using a b k c ev by (intro conjI)
qed

section \<open>Properties of the auto-title injection\<close>





section \<open>Properties of the render loop\<close>

lemma validation_fails_skip:
  "validation_fails env c \<Longrightarrow> process_component env si ci c st = Inr st"
  by (auto simp: validation_fails_def process_component_def Let_def py_truthy_def)

lemma process_components_append:
  "process_components env si ci (pre @ post) st =
     (case process_components env si ci pre st of
        Inl e \<Rightarrow> Inl e
      | Inr st' \<Rightarrow> process_components env si (ci + length pre) post st')"
  by (induction pre arbitrary: ci st) (auto split: sum.splits)

lemma process_components_skip:
  assumes "validation_fails env bad"
  shows "process_components env si ci (pre @ bad # post) st =
     (case process_components env si ci pre st of
        Inl e \<Rightarrow> Inl e
      | Inr st' \<Rightarrow> process_components env si (ci + length pre + 1) post st')"
  using validation_fails_skip [OF assms]
  by (simp add: process_components_append split: sum.splits)

lemma scenario_inject: "inject_title scenario_slide = Inr [valid_comp, broken_comp]"
  by (simp add: inject_title_def scenario_slide_def dict_get_def py_list_def py_truthy_def)

lemma scenario_zkeys: "zkey broken_comp = 0" "zkey valid_comp = 1"
  by (simp_all add: zkey_def z_index_of_def znum_def broken_comp_def valid_comp_def dict_get_def)

lemma scenario_sort: "sort_components [valid_comp, broken_comp] = Inr [broken_comp, valid_comp]"
proof -
  have d: "list_all is_dict [valid_comp, broken_comp]"
    by (simp add: is_dict_def valid_comp_def broken_comp_def)
  have z: "list_all (\<lambda>c. znum (z_index_of c) \<noteq> None) [valid_comp, broken_comp]"
    by (simp add: z_index_of_def znum_def broken_comp_def valid_comp_def dict_get_def)
  have s: "sort_key zkey [valid_comp, broken_comp] = [broken_comp, valid_comp]"
    by (simp add: scenario_zkeys)
  show ?thesis
    unfolding sort_components_def using d z s by (simp only: simp_thms if_False)
qed

lemma scenario_broken:
  assumes "load_schema env ''broken'' = Some sb" "sb [] = Inl e"
  shows "validation_fails env broken_comp"
  unfolding validation_fails_def
  using assms
  by (intro exI [of _ "[(''tool'', YStr ''broken''), (''z_index'', YInt 0)]"] exI [of _ "''broken''"]
        exI [of _ sb] exI [of _ e])
     (simp add: broken_comp_def dict_get_def validate_def)

lemma geom_eta: "\<lparr> left = left g, top = top g, width = width g, height = height g \<rparr> = g"
  by (cases g) simp

lemma scenario_valid:
  assumes "load_schema env ''valid'' = Some sv" "sv [] = Inr vd"
    and "load_renderer env ''valid'' = Some r" "resolve env valid_comp = Inr g"
    and "add_group_shape env g (fst st) = Inr (gid, sl1)" "r vd g (Some gid) sl1 = (None, sl2)"
    and "force_text_color env (group_members gid sl2) = None"
  shows "process_component env si ci valid_comp st =
     Inr (sl2, dict_set (YStr (default_comp_id ''valid'' si ci))
                 \<lparr> e_tool = ''valid'',
                   e_shape_ids = gid # map shape_id (group_members gid sl2),
                   e_bbox = Some g, e_is_group = True \<rparr> (snd st))"
proof -
  have t: "dict_get [(''tool'', YStr ''valid''), (''z_index'', YInt 1)] ''tool'' YNone = YStr ''valid''"
      "dict_get [(''tool'', YStr ''valid''), (''z_index'', YInt 1)] ''id'' YNone = YNone"
      "dict_get [(''tool'', YStr ''valid''), (''z_index'', YInt 1)] ''data'' (YDict []) = YDict []"
      "dict_get [(''tool'', YStr ''valid''), (''z_index'', YInt 1)] ''group'' (YBool True) = YBool True"
    by (simp_all add: dict_get_def)
  have nt: "''valid'' \<noteq> ''table''" by simp
  have disp: "dispatch env ''valid'' (YStr (default_comp_id ''valid'' si ci)) valid_comp r vd st =
     (sl2, dict_set (YStr (default_comp_id ''valid'' si ci))
                 \<lparr> e_tool = ''valid'',
                   e_shape_ids = gid # map shape_id (group_members gid sl2),
                   e_bbox = Some g, e_is_group = True \<rparr> (snd st))"
    unfolding dispatch_def
    using assms(4-7) nt
    by (simp add: valid_comp_def t py_truthy_def hashable_def Let_def geom_eta del: list.inject)
  show ?thesis
    unfolding process_component_def valid_comp_def
    using assms(1-3) disp [unfolded valid_comp_def]
    by (simp add: t py_truthy_def validate_def Let_def del: list.inject)
qed

text \<open>
  Claim C2: per-component weak failure.  A component whose schema validation raises is
  skipped: the slide's shapes and registry are unchanged by it, and the components after
  it in z-index order are processed next, with the following indices.  For the slide with
  the components \<open>valid\<close> (z-index 1) and \<open>broken\<close> (z-index 0), where \<open>broken\<close> fails
  validation and \<open>valid\<close> validates and renders, the registry of the slide has exactly one
  entry, under the id of \<open>valid\<close>.
\<close>

theorem validation_failure_is_per_component:
  assumes "validation_fails env bad"
  shows "process_component env si ci bad st = Inr st
       \<and> process_components env si ci (pre @ bad # post) st =
           (case process_components env si ci pre st of
              Inl e \<Rightarrow> Inl e
            | Inr st' \<Rightarrow> process_components env si (ci + length pre + 1) post st')
       \<and> (load_schema env ''broken'' = Some sb \<and> sb [] = Inl err
            \<and> load_schema env ''valid'' = Some sv \<and> sv [] = Inr vd
            \<and> load_renderer env ''valid'' = Some r \<and> resolve env valid_comp = Inr g
            \<and> add_group_shape env g blank = Inr (gid, sl1)
            \<and> r vd g (Some gid) sl1 = (None, sl2)
            \<and> force_text_color env (group_members gid sl2) = None
          \<longrightarrow> render_slide env si scenario_slide blank =
                Inr (sl2, [(YStr (default_comp_id ''valid'' si 2),
                            \<lparr> e_tool = ''valid'',
                              e_shape_ids = gid # map shape_id (group_members gid sl2),
                              e_bbox = Some g, e_is_group = True \<rparr>)]))"
proof -
  have a: "process_component env si ci bad st = Inr st"
    using assms by (rule validation_fails_skip)
  have b: "process_components env si ci (pre @ bad # post) st =
           (case process_components env si ci pre st of
              Inl e \<Rightarrow> Inl e
            | Inr st' \<Rightarrow> process_components env si (ci + length pre + 1) post st')"
    using assms by (rule process_components_skip)
  have c: "render_slide env si scenario_slide blank =
                Inr (sl2, [(YStr (default_comp_id ''valid'' si 2),
                            \<lparr> e_tool = ''valid'',
                              e_shape_ids = gid # map shape_id (group_members gid sl2),
                              e_bbox = Some g, e_is_group = True \<rparr>)])"
    if h: "load_schema env ''broken'' = Some sb" "sb [] = Inl err"
      "load_schema env ''valid'' = Some sv" "sv [] = Inr vd"
      "load_renderer env ''valid'' = Some r" "resolve env valid_comp = Inr g"
      "add_group_shape env g blank = Inr (gid, sl1)"
      "r vd g (Some gid) sl1 = (None, sl2)"
      "force_text_color env (group_members gid sl2) = None"
  proof -
    have skip: "process_component env si 1 broken_comp (blank, []) = Inr (blank, [])"
      using scenario_broken [OF h(1,2)] by (rule validation_fails_skip)
    have g': "add_group_shape env g (fst (blank, [])) = Inr (gid, sl1)"
      using h(7) by simp
    have ok: "process_component env si 2 valid_comp (blank, []) =
        Inr (sl2, [(YStr (default_comp_id ''valid'' si 2),
                            \<lparr> e_tool = ''valid'',
                              e_shape_ids = gid # map shape_id (group_members gid sl2),
                              e_bbox = Some g, e_is_group = True \<rparr>)])"
      using scenario_valid [OF h(3,4,5,6) g' h(8,9), of si 2] by simp
    have s1: "process_components env si 1 [broken_comp, valid_comp] (blank, []) =
        process_components env si (1 + 1) [valid_comp] (blank, [])"
      by (simp only: process_components.simps(2) skip sum.case)
    have s2: "process_components env si 2 [valid_comp] (blank, []) =
        Inr (sl2, [(YStr (default_comp_id ''valid'' si 2),
                            \<lparr> e_tool = ''valid'',
                              e_shape_ids = gid # map shape_id (group_members gid sl2),
                              e_bbox = Some g, e_is_group = True \<rparr>)])"
      by (simp only: process_components.simps ok sum.case)
    have "process_components env si 1 [broken_comp, valid_comp] (blank, []) =
        Inr (sl2, [(YStr (default_comp_id ''valid'' si 2),
                            \<lparr> e_tool = ''valid'',
                              e_shape_ids = gid # map shape_id (group_members gid sl2),
                              e_bbox = Some g, e_is_group = True \<rparr>)])"
      using s1 s2 by (simp only: one_add_one)
    then show ?thesis
      by (simp only: render_slide_def scenario_inject scenario_sort sum.case)
  qed
  show ?thesis using a b c by blast
qed

lemma default_comp_id_valid: "default_comp_id ''valid'' 1 2 = ''valid_1_2''"
  by code_simp

theorem validation_failure_is_per_component_witness:
  "validation_fails env1 broken_comp
   \<and> process_component env1 1 1 broken_comp ([], []) = Inr ([], [])
   \<and> render_slide env1 1 scenario_slide [] =
       Inr ([Shape 1 geom1 []],
            [(YStr ''valid_1_2'',
              \<lparr> e_tool = ''valid'', e_shape_ids = [1], e_bbox = Some geom1, e_is_group = True \<rparr>)])"
proof -
  have sb: "load_schema env1 ''broken'' = Some (\<lambda>kw. Inl ValidationError)"
    by (simp add: env1_def)
  have vf: "validation_fails env1 broken_comp"
    using sb by (rule scenario_broken) simp
  note inst = validation_failure_is_per_component [OF vf, where si = 1 and ci = 1
      and st = "([], [])" and pre = "[]" and post = "[]"
      and sb = "\<lambda>kw. Inl ValidationError" and err = ValidationError
      and sv = "\<lambda>kw. Inr (YDict kw)" and vd = "YDict []"
      and r = "\<lambda>data g target slide. (None, slide)" and g = geom1 and blank = "[]"
      and gid = 1 and ?sl1.0 = "[Shape 1 geom1 []]" and ?sl2.0 = "[Shape 1 geom1 []]"]
  have a: "process_component env1 1 1 broken_comp ([], []) = Inr ([], [])"
    using inst by (rule conjunct1)
  have prem: "load_schema env1 ''broken'' = Some (\<lambda>kw. Inl ValidationError)
            \<and> (\<lambda>kw. Inl ValidationError) [] = (Inl ValidationError :: py_error + yaml)
            \<and> load_schema env1 ''valid'' = Some (\<lambda>kw. Inr (YDict kw))
            \<and> (\<lambda>kw. Inr (YDict kw)) [] = (Inr (YDict []) :: py_error + yaml)
            \<and> load_renderer env1 ''valid'' = Some (\<lambda>data g target slide. (None, slide))
            \<and> resolve env1 valid_comp = Inr geom1
            \<and> add_group_shape env1 geom1 [] = Inr (1, [Shape 1 geom1 []])
            \<and> (\<lambda>data g target slide. (None, slide)) (YDict []) geom1 (Some 1) [Shape 1 geom1 []]
                 = (None :: py_error option, [Shape 1 geom1 []])
            \<and> force_text_color env1 (group_members 1 [Shape 1 geom1 []]) = None"
    by (simp add: env1_def)
  have gm: "map shape_id (group_members 1 [Shape 1 geom1 []]) = []"
    by (simp add: group_members_def)
  have "render_slide env1 1 scenario_slide [] =
                Inr ([Shape 1 geom1 []], [(YStr (default_comp_id ''valid'' 1 2),
                            \<lparr> e_tool = ''valid'',
                              e_shape_ids = 1 # map shape_id (group_members 1 [Shape 1 geom1 []]),
                              e_bbox = Some geom1, e_is_group = True \<rparr>)])"
    using inst prem by blast
  then have b: "render_slide env1 1 scenario_slide [] =
       Inr ([Shape 1 geom1 []],
            [(YStr ''valid_1_2'',
              \<lparr> e_tool = ''valid'', e_shape_ids = [1], e_bbox = Some geom1, e_is_group = True \<rparr>)])"
    unfolding gm default_comp_id_valid .
  show ?thesis using vf a b by (intro conjI)
qed

end
